theory Spec2Isabelle
  imports Complex_Main "HOL-Library.Monad_Syntax"
begin

section \<open>2D reconstruction filters (foundation/math/filter.h)\<close>

text \<open>
  The classes of \<^verbatim>\<open>filter.h\<close> are templates over a scalar type \<^verbatim>\<open>T\<close>. The embedding
  first instantiates \<^verbatim>\<open>T\<close> with the real numbers: every arithmetic operation is exact.
  (A second instantiation, with IEEE doubles and their rounding, follows further down;
  its definitions carry the suffix \<open>_double\<close>.) The one operation of the source that has no real value is
  a division by zero (IEEE arithmetic answers with an infinity or a NaN). HOL's own
  \<open>x / 0\<close> is \<open>0\<close>, which is not what the program computes, so every division of the
  source goes through \<open>T_div\<close>, whose result is \<open>None\<close> when the divisor is zero;
  a value computed from \<open>None\<close> is \<open>None\<close>.

  \<^verbatim>\<open>size_t\<close> is modelled by \<open>nat\<close>: the only arithmetic on it is the loop counter
  \<^verbatim>\<open>++i\<close> below \<^verbatim>\<open>sample_count\<close>, which cannot wrap.
\<close>

subsection \<open>Scalar division\<close>

definition T_div :: "real \<Rightarrow> real \<Rightarrow> real option" where
  "T_div a b = (if b = 0 then None else Some (a / b))"

subsection \<open>Filter2: the base class\<close>

record Filter2 =
  m_xradius :: real
  m_yradius :: real
  m_rcp_xradius :: "real option"
  m_rcp_yradius :: "real option"

definition Filter2 :: "real \<Rightarrow> real \<Rightarrow> Filter2" where
  "Filter2 xradius yradius =
     \<lparr> m_xradius = xradius,
       m_yradius = yradius,
       m_rcp_xradius = T_div 1 xradius,
       m_rcp_yradius = T_div 1 yradius \<rparr>"

definition get_xradius :: "'a Filter2_scheme \<Rightarrow> real" where
  "get_xradius f = m_xradius f"

definition get_yradius :: "'a Filter2_scheme \<Rightarrow> real" where
  "get_yradius f = m_yradius f"

subsection \<open>BoxFilter2\<close>

type_synonym BoxFilter2 = Filter2

definition BoxFilter2 :: "real \<Rightarrow> real \<Rightarrow> BoxFilter2" where
  "BoxFilter2 xradius yradius = Filter2 xradius yradius"

definition BoxFilter2_evaluate :: "BoxFilter2 \<Rightarrow> real \<Rightarrow> real \<Rightarrow> real option" where
  "BoxFilter2_evaluate f x y = Some 1"

subsection \<open>TriangleFilter2\<close>

type_synonym TriangleFilter2 = Filter2

definition TriangleFilter2 :: "real \<Rightarrow> real \<Rightarrow> TriangleFilter2" where
  "TriangleFilter2 xradius yradius = Filter2 xradius yradius"

definition TriangleFilter2_evaluate :: "TriangleFilter2 \<Rightarrow> real \<Rightarrow> real \<Rightarrow> real option" where
  "TriangleFilter2_evaluate f x y =
     do {
       rcp_xradius \<leftarrow> m_rcp_xradius f;
       rcp_yradius \<leftarrow> m_rcp_yradius f;
       let nx = x * rcp_xradius;
       let ny = y * rcp_yradius;
       Some ((1 - \<bar>nx\<bar>) * (1 - \<bar>ny\<bar>))
     }"

subsection \<open>GaussianFilter2\<close>

record GaussianFilter2 = Filter2 +
  m_alpha :: real
  m_shift :: real

definition gaussian :: "real \<Rightarrow> real \<Rightarrow> real" where
  "gaussian x alpha = exp (- alpha * x * x)"

definition GaussianFilter2 :: "real \<Rightarrow> real \<Rightarrow> real \<Rightarrow> GaussianFilter2" where
  "GaussianFilter2 xradius yradius alpha =
     Filter2.extend (Filter2 xradius yradius)
       (GaussianFilter2.fields alpha (gaussian 1 alpha))"

definition GaussianFilter2_evaluate :: "GaussianFilter2 \<Rightarrow> real \<Rightarrow> real \<Rightarrow> real option" where
  "GaussianFilter2_evaluate f x y =
     do {
       rcp_xradius \<leftarrow> m_rcp_xradius f;
       rcp_yradius \<leftarrow> m_rcp_yradius f;
       let nx = x * rcp_xradius;
       let ny = y * rcp_yradius;
       let fx = gaussian nx (m_alpha f) - m_shift f;
       let fy = gaussian ny (m_alpha f) - m_shift f;
       Some (fx * fy)
     }"

subsection \<open>MitchellFilter2\<close>

record MitchellFilter2 = Filter2 +
  m_a3 :: real
  m_a2 :: real
  m_a0 :: real
  m_b3 :: real
  m_b2 :: real
  m_b1 :: real
  m_b0 :: real

definition MitchellFilter2 :: "real \<Rightarrow> real \<Rightarrow> real \<Rightarrow> real \<Rightarrow> MitchellFilter2" where
  "MitchellFilter2 xradius yradius b c =
     Filter2.extend (Filter2 xradius yradius)
       (MitchellFilter2.fields
          ((1 / 6) * (12 - 9 * b - 6 * c))
          ((1 / 6) * (- 18 + 12 * b + 6 * c))
          ((1 / 6) * (6 - 2 * b))
          ((1 / 6) * (- b - 6 * c))
          ((1 / 6) * (6 * b + 30 * c))
          ((1 / 6) * (- 12 * b - 48 * c))
          ((1 / 6) * (8 * b + 24 * c)))"

definition MitchellFilter2_evaluate :: "MitchellFilter2 \<Rightarrow> real \<Rightarrow> real \<Rightarrow> real option" where
  "MitchellFilter2_evaluate f x y =
     do {
       rcp_xradius \<leftarrow> m_rcp_xradius f;
       rcp_yradius \<leftarrow> m_rcp_yradius f;
       let nx = x * rcp_xradius;
       let x1 = \<bar>nx + nx\<bar>;
       let x2 = x1 * x1;
       let x3 = x2 * x1;
       let fx = (if x1 < 1
                 then m_a3 f * x3 + m_a2 f * x2 + m_a0 f
                 else m_b3 f * x3 + m_b2 f * x2 + m_b1 f * x1 + m_b0 f);
       let ny = y * rcp_yradius;
       let y1 = \<bar>ny + ny\<bar>;
       let y2 = y1 * y1;
       let y3 = y2 * y1;
       let fy = (if y1 < 1
                 then m_a3 f * y3 + m_a2 f * y2 + m_a0 f
                 else m_b3 f * y3 + m_b2 f * y2 + m_b1 f * y1 + m_b0 f);
       Some (fx * fy)
     }"

definition mitchell :: "real \<Rightarrow> real \<Rightarrow> real \<Rightarrow> real" where
  "mitchell x b c =
     (let x1 = \<bar>x + x\<bar>;
          x2 = x1 * x1;
          x3 = x2 * x1
      in if x1 < 1
         then (1 / 6) * ((12 - 9 * b - 6 * c) * x3 +
                         (- 18 + 12 * b + 6 * c) * x2 +
                         (6 - 2 * b))
         else (1 / 6) * ((- b - 6 * c) * x3 +
                         (6 * b + 30 * c) * x2 +
                         (- 12 * b - 48 * c) * x1 +
                         (8 * b + 24 * c)))"

subsection \<open>LanczosFilter2\<close>

record LanczosFilter2 = Filter2 +
  m_rcp_tau :: real

definition LanczosFilter2 :: "real \<Rightarrow> real \<Rightarrow> real \<Rightarrow> LanczosFilter2" where
  "LanczosFilter2 xradius yradius tau =
     Filter2.extend (Filter2 xradius yradius) (LanczosFilter2.fields tau)"

definition sinc :: "real \<Rightarrow> real option" where
  "sinc x = T_div (sin x) x"

definition lanczos :: "real \<Rightarrow> real \<Rightarrow> real option" where
  "lanczos x rcp_tau =
     (let theta = pi * x
      in if theta = 0 then Some 1
         else do {
           s1 \<leftarrow> sinc (theta * rcp_tau);
           s2 \<leftarrow> sinc theta;
           Some (s1 * s2)
         })"

definition LanczosFilter2_evaluate :: "LanczosFilter2 \<Rightarrow> real \<Rightarrow> real \<Rightarrow> real option" where
  "LanczosFilter2_evaluate f x y =
     do {
       rcp_xradius \<leftarrow> m_rcp_xradius f;
       rcp_yradius \<leftarrow> m_rcp_yradius f;
       let nx = x * rcp_xradius;
       let ny = y * rcp_yradius;
       lx \<leftarrow> lanczos nx (m_rcp_tau f);
       ly \<leftarrow> lanczos ny (m_rcp_tau f);
       Some (lx * ly)
     }"

subsection \<open>compute_normalization_factor\<close>

text \<open>
  The function is a template over the filter type; the model takes the filter's
  \<^verbatim>\<open>evaluate\<close> member as its first argument and the filter (\<open>flt\<close>) as its second. \<^verbatim>\<open>hammersley_sequence\<close> is declared in
  \<^verbatim>\<open>foundation/math/qmc.h\<close>; it is a parameter of the model, called with the bases, the
  index and the sample count, and the pair it returns stands for the vector
  \<^verbatim>\<open>(s.x, s.y)\<close>.
\<close>

definition Bases :: "nat list" where
  "Bases = [2]"

function normalization_loop ::
  "('f \<Rightarrow> real \<Rightarrow> real \<Rightarrow> real option) \<Rightarrow> 'f \<Rightarrow> (nat list \<Rightarrow> nat \<Rightarrow> nat \<Rightarrow> real \<times> real) \<Rightarrow>
   real \<Rightarrow> real \<Rightarrow> nat \<Rightarrow> nat \<Rightarrow> real option \<Rightarrow> real option" where
  "normalization_loop evaluate flt hammersley_sequence xradius yradius sample_count i result =
     (if i < sample_count then
        let s = hammersley_sequence Bases i sample_count;
            p = (xradius * (2 * fst s - 1), yradius * (2 * snd s - 1));
            result' = do {
              r \<leftarrow> result;
              e \<leftarrow> evaluate flt (fst p) (snd p);
              Some (r + e)
            }
        in normalization_loop evaluate flt hammersley_sequence xradius yradius
             sample_count (i + 1) result'
      else result)"
  by pat_completeness auto
termination
  by (relation "measure (\<lambda>(evaluate, flt, hs, xradius, yradius, sample_count, i, result).
        sample_count - i)") auto

declare normalization_loop.simps [simp del]

definition compute_normalization_factor ::
  "('a Filter2_scheme \<Rightarrow> real \<Rightarrow> real \<Rightarrow> real option) \<Rightarrow> 'a Filter2_scheme \<Rightarrow>
   (nat list \<Rightarrow> nat \<Rightarrow> nat \<Rightarrow> real \<times> real) \<Rightarrow> nat \<Rightarrow> real option" where
  "compute_normalization_factor evaluate flt hammersley_sequence sample_count =
     (let xradius = get_xradius flt;
          yradius = get_yradius flt
      in do {
        result \<leftarrow> normalization_loop evaluate flt hammersley_sequence
                    xradius yradius sample_count 0 (Some 0);
        let result = result * (4 * xradius * yradius);
        T_div result (real sample_count)
      })"

subsection \<open>The Lanczos kernel as the specification words it\<close>

text \<open>
  The specification defines \<open>sinc(t) = sin(t)/t\<close>, and \<open>lanczos(n) = 1\<close> when \<open>n = 0\<close>,
  else \<open>sinc(pi*n/tau) * sinc(pi*n)\<close>. This second definition follows those words; it is
  compared with \<open>lanczos\<close> and \<open>LanczosFilter2_evaluate\<close>, which follow the source.
\<close>

definition lanczos_spec :: "real \<Rightarrow> real \<Rightarrow> real option" where
  "lanczos_spec n tau =
     (if n = 0 then Some 1
      else do {
        q \<leftarrow> T_div (pi * n) tau;
        s1 \<leftarrow> sinc q;
        s2 \<leftarrow> sinc (pi * n);
        Some (s1 * s2)
      })"

section \<open>The instantiation with IEEE binary64 arithmetic\<close>

text \<open>
  The definitions above read \<^verbatim>\<open>T\<close> as the real numbers. The definitions of this section
  read \<^verbatim>\<open>T\<close> as \<^verbatim>\<open>double\<close>: every arithmetic operation of the source is one operation
  on doubles, rounded to the nearest double with ties to the even significand, in the
  order in which C++ evaluates the expression. A finite double is the real number it
  stands for (the two zeros are not told apart); \<open>None\<close> says that the computation has
  left the finite doubles, by overflow or by a division by zero, and what IEEE arithmetic
  goes on to compute from an infinity or a NaN is not followed.

  \<open>quantum x\<close> is the spacing of the doubles around \<open>x\<close>: \<open>2\<close> to the power
  \<open>\<lfloor>log 2 \<bar>x\<bar>\<rfloor> - 52\<close> (a significand of 53 bits), and \<open>2\<close> to the power \<open>-1074\<close> in the
  subnormal range. \<open>fl x\<close> is the double nearest to \<open>x\<close>, and \<open>None\<close> when that would be
  \<open>2 ^ 1024\<close> or more in magnitude.

  \<^verbatim>\<open>std::exp\<close> belongs to the C++ library, not to this repository; it is taken to be
  correctly rounded.
\<close>

subsection \<open>Doubles\<close>

type_synonym double = "real option"

definition round_even :: "real \<Rightarrow> int" where
  "round_even y =
     (let f = \<lfloor>y\<rfloor>; d = y - of_int f
      in if d < 1 / 2 then f
         else if 1 / 2 < d then f + 1
         else if even f then f else f + 1)"

definition quantum :: "real \<Rightarrow> real" where
  "quantum x = 2 powr of_int (max (\<lfloor>log 2 \<bar>x\<bar>\<rfloor> - 52) (- 1074))"

definition fl :: "real \<Rightarrow> double" where
  "fl x =
     (if x = 0 then Some 0
      else let q = quantum x;
               r = q * of_int (round_even (x / q))
           in if \<bar>r\<bar> < 2 ^ 1024 then Some r else None)"

definition dadd :: "double \<Rightarrow> double \<Rightarrow> double" where
  "dadd a b = do { x \<leftarrow> a; y \<leftarrow> b; fl (x + y) }"

definition dsub :: "double \<Rightarrow> double \<Rightarrow> double" where
  "dsub a b = do { x \<leftarrow> a; y \<leftarrow> b; fl (x - y) }"

definition dmul :: "double \<Rightarrow> double \<Rightarrow> double" where
  "dmul a b = do { x \<leftarrow> a; y \<leftarrow> b; fl (x * y) }"

definition ddiv :: "double \<Rightarrow> double \<Rightarrow> double" where
  "ddiv a b = do { x \<leftarrow> a; y \<leftarrow> b; if y = 0 then None else fl (x / y) }"

definition dneg :: "double \<Rightarrow> double" where
  "dneg a = map_option uminus a"

definition dabs :: "double \<Rightarrow> double" where
  "dabs a = map_option abs a"

definition dless :: "double \<Rightarrow> double \<Rightarrow> bool" where
  "dless a b =
     (case a of None \<Rightarrow> False
      | Some x \<Rightarrow> (case b of None \<Rightarrow> False | Some y \<Rightarrow> x < y))"


subsection \<open>Filter2 and TriangleFilter2 over doubles\<close>

definition Filter2_double :: "real \<Rightarrow> real \<Rightarrow> Filter2" where
  "Filter2_double xradius yradius =
     \<lparr> m_xradius = xradius,
       m_yradius = yradius,
       m_rcp_xradius = ddiv (Some 1) (Some xradius),
       m_rcp_yradius = ddiv (Some 1) (Some yradius) \<rparr>"



subsection \<open>GaussianFilter2 over doubles\<close>





subsection \<open>MitchellFilter2 over doubles\<close>

record MitchellFilter2_double = Filter2 +
  m_a3_double :: double
  m_a2_double :: double
  m_a0_double :: double
  m_b3_double :: double
  m_b2_double :: double
  m_b1_double :: double
  m_b0_double :: double

definition MitchellFilter2_double ::
  "real \<Rightarrow> real \<Rightarrow> real \<Rightarrow> real \<Rightarrow> MitchellFilter2_double" where
  "MitchellFilter2_double xradius yradius b c =
     Filter2.extend (Filter2_double xradius yradius)
       (MitchellFilter2_double.fields
          (dmul (ddiv (Some 1) (Some 6))
             (dsub (dsub (Some 12) (dmul (Some 9) (Some b))) (dmul (Some 6) (Some c))))
          (dmul (ddiv (Some 1) (Some 6))
             (dadd (dadd (Some (- 18)) (dmul (Some 12) (Some b))) (dmul (Some 6) (Some c))))
          (dmul (ddiv (Some 1) (Some 6))
             (dsub (Some 6) (dmul (Some 2) (Some b))))
          (dmul (ddiv (Some 1) (Some 6))
             (dsub (dneg (Some b)) (dmul (Some 6) (Some c))))
          (dmul (ddiv (Some 1) (Some 6))
             (dadd (dmul (Some 6) (Some b)) (dmul (Some 30) (Some c))))
          (dmul (ddiv (Some 1) (Some 6))
             (dsub (dmul (Some (- 12)) (Some b)) (dmul (Some 48) (Some c))))
          (dmul (ddiv (Some 1) (Some 6))
             (dadd (dmul (Some 8) (Some b)) (dmul (Some 24) (Some c)))))"

definition mitchell_double :: "real \<Rightarrow> real \<Rightarrow> real \<Rightarrow> double" where
  "mitchell_double x b c =
     (let x1 = dabs (dadd (Some x) (Some x));
          x2 = dmul x1 x1;
          x3 = dmul x2 x1
      in if dless x1 (Some 1)
         then dmul (ddiv (Some 1) (Some 6))
                (dadd
                   (dadd
                      (dmul (dsub (dsub (Some 12) (dmul (Some 9) (Some b)))
                               (dmul (Some 6) (Some c))) x3)
                      (dmul (dadd (dadd (Some (- 18)) (dmul (Some 12) (Some b)))
                               (dmul (Some 6) (Some c))) x2))
                   (dsub (Some 6) (dmul (Some 2) (Some b))))
         else dmul (ddiv (Some 1) (Some 6))
                (dadd
                   (dadd
                      (dadd
                         (dmul (dsub (dneg (Some b)) (dmul (Some 6) (Some c))) x3)
                         (dmul (dadd (dmul (Some 6) (Some b)) (dmul (Some 30) (Some c))) x2))
                      (dmul (dsub (dmul (Some (- 12)) (Some b)) (dmul (Some 48) (Some c))) x1))
                   (dadd (dmul (Some 8) (Some b)) (dmul (Some 24) (Some c)))))"

section \<open>Auxiliary facts\<close>

subsection \<open>Fields of the constructed filters\<close>

lemma Filter2_sel [simp]:
  "m_xradius (Filter2 xr yr) = xr"
  "m_yradius (Filter2 xr yr) = yr"
  "m_rcp_xradius (Filter2 xr yr) = T_div 1 xr"
  "m_rcp_yradius (Filter2 xr yr) = T_div 1 yr"
  by (simp_all add: Filter2_def)

lemma GaussianFilter2_sel [simp]:
  "m_xradius (GaussianFilter2 xr yr alpha) = xr"
  "m_yradius (GaussianFilter2 xr yr alpha) = yr"
  "m_rcp_xradius (GaussianFilter2 xr yr alpha) = T_div 1 xr"
  "m_rcp_yradius (GaussianFilter2 xr yr alpha) = T_div 1 yr"
  "m_alpha (GaussianFilter2 xr yr alpha) = alpha"
  "m_shift (GaussianFilter2 xr yr alpha) = gaussian 1 alpha"
  by (simp_all add: GaussianFilter2_def Filter2_def Filter2.defs GaussianFilter2.defs)

lemma MitchellFilter2_sel [simp]:
  "m_xradius (MitchellFilter2 xr yr b c) = xr"
  "m_yradius (MitchellFilter2 xr yr b c) = yr"
  "m_rcp_xradius (MitchellFilter2 xr yr b c) = T_div 1 xr"
  "m_rcp_yradius (MitchellFilter2 xr yr b c) = T_div 1 yr"
  "m_a3 (MitchellFilter2 xr yr b c) = (1 / 6) * (12 - 9 * b - 6 * c)"
  "m_a2 (MitchellFilter2 xr yr b c) = (1 / 6) * (- 18 + 12 * b + 6 * c)"
  "m_a0 (MitchellFilter2 xr yr b c) = (1 / 6) * (6 - 2 * b)"
  "m_b3 (MitchellFilter2 xr yr b c) = (1 / 6) * (- b - 6 * c)"
  "m_b2 (MitchellFilter2 xr yr b c) = (1 / 6) * (6 * b + 30 * c)"
  "m_b1 (MitchellFilter2 xr yr b c) = (1 / 6) * (- 12 * b - 48 * c)"
  "m_b0 (MitchellFilter2 xr yr b c) = (1 / 6) * (8 * b + 24 * c)"
  by (simp_all add: MitchellFilter2_def Filter2_def Filter2.defs MitchellFilter2.defs)

lemma LanczosFilter2_sel [simp]:
  "m_xradius (LanczosFilter2 xr yr tau) = xr"
  "m_yradius (LanczosFilter2 xr yr tau) = yr"
  "m_rcp_xradius (LanczosFilter2 xr yr tau) = T_div 1 xr"
  "m_rcp_yradius (LanczosFilter2 xr yr tau) = T_div 1 yr"
  "m_rcp_tau (LanczosFilter2 xr yr tau) = tau"
  by (simp_all add: LanczosFilter2_def Filter2_def Filter2.defs LanczosFilter2.defs)

subsection \<open>Division\<close>

lemma T_div_Some [simp]: "b \<noteq> 0 \<Longrightarrow> T_div a b = Some (a / b)"
  by (simp add: T_div_def)

lemma T_div_zero [simp]: "T_div a 0 = None"
  by (simp add: T_div_def)

subsection \<open>The Lanczos helpers\<close>

lemma sinc_defined: "x \<noteq> 0 \<Longrightarrow> sinc x = Some (sin x / x)"
  by (simp add: sinc_def)

lemma lanczos_defined: "rcp_tau \<noteq> 0 \<Longrightarrow> \<exists>v. lanczos x rcp_tau = Some v"
  by (simp add: lanczos_def Let_def sinc_defined)

lemma lanczos_minus: "lanczos (- x) rcp_tau = lanczos x rcp_tau"
  by (simp add: lanczos_def Let_def sinc_def T_div_def)

subsection \<open>The Mitchell-Netravali cubic\<close>

lemma mitchell_axis:
  "(let x1 = \<bar>n + n\<bar>; x2 = x1 * x1; x3 = x2 * x1
    in if x1 < 1
       then m_a3 (MitchellFilter2 xr yr b c) * x3 + m_a2 (MitchellFilter2 xr yr b c) * x2
              + m_a0 (MitchellFilter2 xr yr b c)
       else m_b3 (MitchellFilter2 xr yr b c) * x3 + m_b2 (MitchellFilter2 xr yr b c) * x2
              + m_b1 (MitchellFilter2 xr yr b c) * x1 + m_b0 (MitchellFilter2 xr yr b c))
     = mitchell n b c"
  by (simp add: mitchell_def Let_def algebra_simps)

subsection \<open>The accumulation loop\<close>

lemma normalization_loop_exit:
  "\<not> i < n \<Longrightarrow> normalization_loop ev flt hs xr yr n i result = result"
  by (subst normalization_loop.simps) simp

lemma normalization_loop_step:
  "i < n \<Longrightarrow> normalization_loop ev flt hs xr yr n i result =
     normalization_loop ev flt hs xr yr n (i + 1)
       (do {
          r \<leftarrow> result;
          e \<leftarrow> ev flt (xr * (2 * fst (hs Bases i n) - 1)) (yr * (2 * snd (hs Bases i n) - 1));
          Some (r + e)
        })"
  by (subst normalization_loop.simps) (simp add: Let_def)

lemma normalization_loop_const:
  assumes "\<And>x y. ev flt x y = Some c"
  shows "normalization_loop ev flt hs xr yr n i (Some r) = Some (r + c * real (n - i))"
proof (induction "n - i" arbitrary: i r)
  case 0
  then show ?case by (simp add: normalization_loop_exit)
next
  case (Suc k)
  then have lt: "i < n" and k: "k = n - (i + 1)" by simp_all
  have "normalization_loop ev flt hs xr yr n i (Some r) =
        normalization_loop ev flt hs xr yr n (i + 1) (Some (r + c))"
    by (simp add: normalization_loop_step [OF lt] assms)
  also have "\<dots> = Some (r + c + c * real (n - (i + 1)))"
    by (rule Suc.hyps(1) [OF k])
  also have "r + c + c * real (n - (i + 1)) = r + c * real (n - i)"
    using lt by (simp add: algebra_simps of_nat_diff)
  finally show ?case .
qed

lemma normalization_loop_defined:
  assumes "\<And>x y. \<exists>v. ev flt x y = Some v"
  shows "\<exists>v. normalization_loop ev flt hs xr yr n i (Some r) = Some v"
proof (induction "n - i" arbitrary: i r)
  case 0
  then show ?case by (simp add: normalization_loop_exit)
next
  case (Suc k)
  then have lt: "i < n" and k: "k = n - (i + 1)" by simp_all
  obtain e where e: "ev flt (xr * (2 * fst (hs Bases i n) - 1))
                       (yr * (2 * snd (hs Bases i n) - 1)) = Some e"
    using assms by blast
  have "normalization_loop ev flt hs xr yr n i (Some r) =
        normalization_loop ev flt hs xr yr n (i + 1) (Some (r + e))"
    by (simp add: normalization_loop_step [OF lt] e)
  then show ?case
    using Suc.hyps(1) [OF k, of "r + e"] by simp
qed

lemma compute_normalization_factor_zero:
  "compute_normalization_factor ev flt hs 0 = None"
  by (simp add: compute_normalization_factor_def Let_def normalization_loop_exit)

lemma compute_normalization_factor_pos:
  assumes "1 \<le> n"
  shows "compute_normalization_factor ev flt hs n =
     map_option (\<lambda>result. result * (4 * get_xradius flt * get_yradius flt) / real n)
       (normalization_loop ev flt hs (get_xradius flt) (get_yradius flt) n 0 (Some 0))"
  using assms
  by (cases "normalization_loop ev flt hs (get_xradius flt) (get_yradius flt) n 0 (Some 0)")
     (simp_all add: compute_normalization_factor_def Let_def)

lemma compute_normalization_factor_defined:
  assumes "1 \<le> n" and "\<And>x y. \<exists>v. ev flt x y = Some v"
  shows "\<exists>v. compute_normalization_factor ev flt hs n = Some v"
proof -
  obtain v where "normalization_loop ev flt hs (get_xradius flt) (get_yradius flt) n 0 (Some 0)
                   = Some v"
    using normalization_loop_defined [of ev flt, OF assms(2)] by blast
  then show ?thesis
    by (simp add: compute_normalization_factor_pos [OF assms(1)])
qed

subsection \<open>Where the kernels are defined\<close>

lemma BoxFilter2_defined: "\<exists>v. BoxFilter2_evaluate f x y = Some v"
  by (simp add: BoxFilter2_evaluate_def)

lemma TriangleFilter2_defined:
  "xr \<noteq> 0 \<Longrightarrow> yr \<noteq> 0 \<Longrightarrow> \<exists>v. TriangleFilter2_evaluate (TriangleFilter2 xr yr) x y = Some v"
  by (simp add: TriangleFilter2_evaluate_def TriangleFilter2_def)

lemma GaussianFilter2_defined:
  "xr \<noteq> 0 \<Longrightarrow> yr \<noteq> 0 \<Longrightarrow>
   \<exists>v. GaussianFilter2_evaluate (GaussianFilter2 xr yr alpha) x y = Some v"
  by (simp add: GaussianFilter2_evaluate_def Let_def)

lemma MitchellFilter2_defined:
  "xr \<noteq> 0 \<Longrightarrow> yr \<noteq> 0 \<Longrightarrow>
   \<exists>v. MitchellFilter2_evaluate (MitchellFilter2 xr yr b c) x y = Some v"
  by (simp add: MitchellFilter2_evaluate_def Let_def del: MitchellFilter2_sel(5-11))

lemma LanczosFilter2_defined:
  assumes "xr \<noteq> 0" "yr \<noteq> 0" "tau \<noteq> 0"
  shows "\<exists>v. LanczosFilter2_evaluate (LanczosFilter2 xr yr tau) x y = Some v"
proof -
  obtain lx where lx: "lanczos (x / xr) tau = Some lx"
    using lanczos_defined [OF assms(3), of "x / xr"] by blast
  obtain ly where ly: "lanczos (y / yr) tau = Some ly"
    using lanczos_defined [OF assms(3), of "y / yr"] by blast
  show ?thesis
    using assms lx ly by (simp add: LanczosFilter2_evaluate_def)
qed

subsection \<open>Rounding to the nearest double\<close>

lemma round_even_error: "\<bar>of_int (round_even y) - y\<bar> \<le> 1 / 2"
  unfolding round_even_def Let_def by (auto split: if_splits)

lemma quantum_normal:
  fixes E :: int
  assumes "2 powr of_int E \<le> \<bar>x\<bar>" "\<bar>x\<bar> < 2 powr of_int (E + 1)" "- 1022 \<le> E"
  shows "quantum x = 2 powr of_int (E - 52)"
proof -
  have "0 < (2::real) powr of_int E" by simp
  then have pos: "0 < \<bar>x\<bar>" using assms(1) by linarith
  have "\<lfloor>log 2 \<bar>x\<bar>\<rfloor> = E"
    using assms(1,2) pos by (simp add: floor_log_eq_powr_iff)
  moreover have "max (E - 52) (- 1074) = E - 52" using assms(3) by simp
  ultimately show ?thesis by (simp only: quantum_def)
qed

lemma binary64_range:
  fixes E :: int and v :: real
  assumes "E \<le> 1022" and "\<bar>v\<bar> < 2 powr 53 + 1 / 2"
  shows "\<bar>v * 2 powr of_int (E - 52)\<bar> < 2 ^ 1024"
proof -
  let ?q = "2 powr of_int (E - 52) :: real"
  have qpos: "0 < ?q" by simp
  have q: "?q \<le> 2 powr 970"
    using assms(1) by (intro powr_mono) simp_all
  have "\<bar>v * ?q\<bar> = \<bar>v\<bar> * ?q" by (simp add: abs_mult)
  also have "\<dots> \<le> \<bar>v\<bar> * 2 powr 970"
    using q by (intro mult_left_mono) simp_all
  also have "\<dots> < 2 powr 54 * 2 powr 970"
  proof (intro mult_strict_right_mono)
    have "(2::real) powr 53 + 1 / 2 < 2 powr 54" by simp
    then show "\<bar>v\<bar> < 2 powr 54" using assms(2) by linarith
    show "(0::real) < 2 powr 970" by simp
  qed
  also have "(2::real) powr 54 * 2 powr 970 = 2 powr 1024"
    by (simp only: powr_add [symmetric]) simp
  also have "(2::real) powr 1024 = 2 ^ 1024" by simp
  finally show ?thesis .
qed

lemma fl_normal:
  fixes E :: int
  assumes "2 powr of_int E \<le> \<bar>x\<bar>" "\<bar>x\<bar> < 2 powr of_int (E + 1)" "- 1022 \<le> E" "E \<le> 1022"
  shows "fl x = Some (of_int (round_even (x / 2 powr of_int (E - 52))) * 2 powr of_int (E - 52))"
proof -
  let ?q = "2 powr of_int (E - 52) :: real"
  let ?m = "round_even (x / ?q)"
  have qpos: "0 < ?q" by simp
  have "0 < (2::real) powr of_int E" by simp
  then have "0 < \<bar>x\<bar>" using assms(1) by linarith
  then have x0: "x \<noteq> 0" by simp
  have q: "quantum x = ?q" by (rule quantum_normal [OF assms(1-3)])
  have "\<bar>x\<bar> / ?q < 2 powr of_int (E + 1) / ?q"
    using assms(2) qpos by (simp add: divide_strict_right_mono)
  also have "2 powr of_int (E + 1) / ?q = 2 powr 53"
    by (simp flip: powr_diff)
  finally have xq: "\<bar>x / ?q\<bar> < 2 powr 53" by simp
  have "\<bar>of_int ?m :: real\<bar> \<le> \<bar>x / ?q\<bar> + 1 / 2"
    using round_even_error [of "x / ?q"] by linarith
  then have mb: "\<bar>of_int ?m :: real\<bar> < 2 powr 53 + 1 / 2" using xq by linarith
  have r: "\<bar>of_int ?m * ?q\<bar> < 2 ^ 1024"
    by (rule binary64_range [OF assms(4) mb])
  show ?thesis using x0 q r by (simp add: fl_def Let_def mult.commute)
qed











subsection \<open>Operations on doubles\<close>






subsection \<open>Fields of the filters constructed over doubles\<close>



lemma MitchellFilter2_double_sel:
  "m_a3_double (MitchellFilter2_double xr yr b c) =
     dmul (ddiv (Some 1) (Some 6))
       (dsub (dsub (Some 12) (dmul (Some 9) (Some b))) (dmul (Some 6) (Some c)))"
  "m_a2_double (MitchellFilter2_double xr yr b c) =
     dmul (ddiv (Some 1) (Some 6))
       (dadd (dadd (Some (- 18)) (dmul (Some 12) (Some b))) (dmul (Some 6) (Some c)))"
  "m_a0_double (MitchellFilter2_double xr yr b c) =
     dmul (ddiv (Some 1) (Some 6)) (dsub (Some 6) (dmul (Some 2) (Some b)))"
  "m_b3_double (MitchellFilter2_double xr yr b c) =
     dmul (ddiv (Some 1) (Some 6)) (dsub (dneg (Some b)) (dmul (Some 6) (Some c)))"
  "m_b2_double (MitchellFilter2_double xr yr b c) =
     dmul (ddiv (Some 1) (Some 6)) (dadd (dmul (Some 6) (Some b)) (dmul (Some 30) (Some c)))"
  "m_b1_double (MitchellFilter2_double xr yr b c) =
     dmul (ddiv (Some 1) (Some 6)) (dsub (dmul (Some (- 12)) (Some b)) (dmul (Some 48) (Some c)))"
  "m_b0_double (MitchellFilter2_double xr yr b c) =
     dmul (ddiv (Some 1) (Some 6)) (dadd (dmul (Some 8) (Some b)) (dmul (Some 24) (Some c)))"
  by (simp_all add: MitchellFilter2_double_def Filter2.defs MitchellFilter2_double.defs)

subsection \<open>The triangle filter over doubles\<close>





subsection \<open>The exponential near the Gaussian edge\<close>





subsection \<open>The Gaussian filter over doubles\<close>






subsection \<open>The Mitchell-Netravali coefficients over doubles, at the doubles nearest to 1/3\<close>

lemma mitchell_double_third_coefficients:
  shows
    "m_a3_double (MitchellFilter2_double 1 1 (6004799503160661 / 2 ^ 54) (6004799503160661 / 2 ^ 54)) =
       Some (2627099782632789 / 2 ^ 51)"
    and "m_a2_double (MitchellFilter2_double 1 1 (6004799503160661 / 2 ^ 54) (6004799503160661 / 2 ^ 54)) =
       Some (- 2)"
    and "m_a0_double (MitchellFilter2_double 1 1 (6004799503160661 / 2 ^ 54) (6004799503160661 / 2 ^ 54)) =
       Some (2001599834386887 / 2 ^ 51)"
    and "m_b3_double (MitchellFilter2_double 1 1 (6004799503160661 / 2 ^ 54) (6004799503160661 / 2 ^ 54)) =
       Some (- (7005599420354105 / 2 ^ 54))"
    and "m_b2_double (MitchellFilter2_double 1 1 (6004799503160661 / 2 ^ 54) (6004799503160661 / 2 ^ 54)) =
       Some 2"
    and "m_b1_double (MitchellFilter2_double 1 1 (6004799503160661 / 2 ^ 54) (6004799503160661 / 2 ^ 54)) =
       Some (- (3752999689475413 / 2 ^ 50))"
    and "m_b0_double (MitchellFilter2_double 1 1 (6004799503160661 / 2 ^ 54) (6004799503160661 / 2 ^ 54)) =
       Some (2001599834386887 / 2 ^ 50)"
proof -
  have s1: "ddiv (Some 1) (Some 6) = Some (6004799503160661 / 2 ^ 55)"
    using fl_normal [of "(- 3)" "1 / 6"]
    by (simp add: ddiv_def round_even_def Let_def powr_neg_numeral)
  have s2: "dmul (Some 9) (Some (6004799503160661 / 2 ^ 54)) = Some 3"
    using fl_normal [of "1" "9 * (6004799503160661 / 2 ^ 54)"]
    by (simp add: dmul_def round_even_def Let_def powr_neg_numeral)
  have s3: "dsub (Some 12) (Some 3) = Some 9"
    using fl_normal [of "3" "12 - 3"]
    by (simp add: dsub_def round_even_def Let_def powr_neg_numeral)
  have s4: "dmul (Some 6) (Some (6004799503160661 / 2 ^ 54)) = Some 2"
    using fl_normal [of "0" "6 * (6004799503160661 / 2 ^ 54)"]
    by (simp add: dmul_def round_even_def Let_def powr_neg_numeral)
  have s5: "dsub (Some 9) (Some 2) = Some 7"
    using fl_normal [of "2" "9 - 2"]
    by (simp add: dsub_def round_even_def Let_def powr_neg_numeral)
  have s6: "dmul (Some (6004799503160661 / 2 ^ 55)) (Some 7) = Some (2627099782632789 / 2 ^ 51)"
    using fl_normal [of "0" "(6004799503160661 / 2 ^ 55) * 7"]
    by (simp add: dmul_def round_even_def Let_def powr_neg_numeral)
  have s7: "dmul (Some 12) (Some (6004799503160661 / 2 ^ 54)) = Some 4"
    using fl_normal [of "1" "12 * (6004799503160661 / 2 ^ 54)"]
    by (simp add: dmul_def round_even_def Let_def powr_neg_numeral)
  have s8: "dadd (Some (- 18)) (Some 4) = Some (- 14)"
    using fl_normal [of "3" "(- 18) + 4"]
    by (simp add: dadd_def round_even_def Let_def powr_neg_numeral)
  have s9: "dadd (Some (- 14)) (Some 2) = Some (- 12)"
    using fl_normal [of "3" "(- 14) + 2"]
    by (simp add: dadd_def round_even_def Let_def powr_neg_numeral)
  have s10: "dmul (Some (6004799503160661 / 2 ^ 55)) (Some (- 12)) = Some (- 2)"
    using fl_normal [of "0" "(6004799503160661 / 2 ^ 55) * (- 12)"]
    by (simp add: dmul_def round_even_def Let_def powr_neg_numeral)
  have s11: "dmul (Some 2) (Some (6004799503160661 / 2 ^ 54)) = Some (6004799503160661 / 2 ^ 53)"
    using fl_normal [of "(- 1)" "2 * (6004799503160661 / 2 ^ 54)"]
    by (simp add: dmul_def round_even_def Let_def powr_neg_numeral)
  have s12: "dsub (Some 6) (Some (6004799503160661 / 2 ^ 53)) = Some (6004799503160661 / 2 ^ 50)"
    using fl_normal [of "2" "6 - (6004799503160661 / 2 ^ 53)"]
    by (simp add: dsub_def round_even_def Let_def powr_neg_numeral)
  have s13: "dmul (Some (6004799503160661 / 2 ^ 55)) (Some (6004799503160661 / 2 ^ 50)) = Some (2001599834386887 / 2 ^ 51)"
    using fl_normal [of "(- 1)" "(6004799503160661 / 2 ^ 55) * (6004799503160661 / 2 ^ 50)"]
    by (simp add: dmul_def round_even_def Let_def powr_neg_numeral)
  have s14: "dneg (Some (6004799503160661 / 2 ^ 54)) = Some (- (6004799503160661 / 2 ^ 54))"
    by (simp add: dneg_def)
  have s15: "dsub (Some (- (6004799503160661 / 2 ^ 54))) (Some 2) = Some (- (5254199565265579 / 2 ^ 51))"
    using fl_normal [of "1" "(- (6004799503160661 / 2 ^ 54)) - 2"]
    by (simp add: dsub_def round_even_def Let_def powr_neg_numeral)
  have s16: "dmul (Some (6004799503160661 / 2 ^ 55)) (Some (- (5254199565265579 / 2 ^ 51))) = Some (- (7005599420354105 / 2 ^ 54))"
    using fl_normal [of "(- 2)" "(6004799503160661 / 2 ^ 55) * (- (5254199565265579 / 2 ^ 51))"]
    by (simp add: dmul_def round_even_def Let_def powr_neg_numeral)
  have s17: "dmul (Some 30) (Some (6004799503160661 / 2 ^ 54)) = Some 10"
    using fl_normal [of "3" "30 * (6004799503160661 / 2 ^ 54)"]
    by (simp add: dmul_def round_even_def Let_def powr_neg_numeral)
  have s18: "dadd (Some 2) (Some 10) = Some 12"
    using fl_normal [of "3" "2 + 10"]
    by (simp add: dadd_def round_even_def Let_def powr_neg_numeral)
  have s19: "dmul (Some (6004799503160661 / 2 ^ 55)) (Some 12) = Some 2"
    using fl_normal [of "0" "(6004799503160661 / 2 ^ 55) * 12"]
    by (simp add: dmul_def round_even_def Let_def powr_neg_numeral)
  have s20: "dmul (Some (- 12)) (Some (6004799503160661 / 2 ^ 54)) = Some (- 4)"
    using fl_normal [of "1" "(- 12) * (6004799503160661 / 2 ^ 54)"]
    by (simp add: dmul_def round_even_def Let_def powr_neg_numeral)
  have s21: "dmul (Some 48) (Some (6004799503160661 / 2 ^ 54)) = Some 16"
    using fl_normal [of "3" "48 * (6004799503160661 / 2 ^ 54)"]
    by (simp add: dmul_def round_even_def Let_def powr_neg_numeral)
  have s22: "dsub (Some (- 4)) (Some 16) = Some (- 20)"
    using fl_normal [of "4" "(- 4) - 16"]
    by (simp add: dsub_def round_even_def Let_def powr_neg_numeral)
  have s23: "dmul (Some (6004799503160661 / 2 ^ 55)) (Some (- 20)) = Some (- (3752999689475413 / 2 ^ 50))"
    using fl_normal [of "1" "(6004799503160661 / 2 ^ 55) * (- 20)"]
    by (simp add: dmul_def round_even_def Let_def powr_neg_numeral)
  have s24: "dmul (Some 8) (Some (6004799503160661 / 2 ^ 54)) = Some (6004799503160661 / 2 ^ 51)"
    using fl_normal [of "1" "8 * (6004799503160661 / 2 ^ 54)"]
    by (simp add: dmul_def round_even_def Let_def powr_neg_numeral)
  have s25: "dmul (Some 24) (Some (6004799503160661 / 2 ^ 54)) = Some 8"
    using fl_normal [of "2" "24 * (6004799503160661 / 2 ^ 54)"]
    by (simp add: dmul_def round_even_def Let_def powr_neg_numeral)
  have s26: "dadd (Some (6004799503160661 / 2 ^ 51)) (Some 8) = Some (6004799503160661 / 2 ^ 49)"
    using fl_normal [of "3" "(6004799503160661 / 2 ^ 51) + 8"]
    by (simp add: dadd_def round_even_def Let_def powr_neg_numeral)
  have s27: "dmul (Some (6004799503160661 / 2 ^ 55)) (Some (6004799503160661 / 2 ^ 49)) = Some (2001599834386887 / 2 ^ 50)"
    using fl_normal [of "0" "(6004799503160661 / 2 ^ 55) * (6004799503160661 / 2 ^ 49)"]
    by (simp add: dmul_def round_even_def Let_def powr_neg_numeral)
  note steps = s1 s2 s3 s4 s5 s6 s7 s8 s9 s10 s11 s12 s13 s14 s15 s16 s17 s18 s19 s20 s21 s22 s23 s24 s25 s26 s27
  show "m_a3_double (MitchellFilter2_double 1 1 (6004799503160661 / 2 ^ 54) (6004799503160661 / 2 ^ 54)) =
       Some (2627099782632789 / 2 ^ 51)"
    by (simp only: MitchellFilter2_double_sel steps)
  show "m_a2_double (MitchellFilter2_double 1 1 (6004799503160661 / 2 ^ 54) (6004799503160661 / 2 ^ 54)) =
       Some (- 2)"
    by (simp only: MitchellFilter2_double_sel steps)
  show "m_a0_double (MitchellFilter2_double 1 1 (6004799503160661 / 2 ^ 54) (6004799503160661 / 2 ^ 54)) =
       Some (2001599834386887 / 2 ^ 51)"
    by (simp only: MitchellFilter2_double_sel steps)
  show "m_b3_double (MitchellFilter2_double 1 1 (6004799503160661 / 2 ^ 54) (6004799503160661 / 2 ^ 54)) =
       Some (- (7005599420354105 / 2 ^ 54))"
    by (simp only: MitchellFilter2_double_sel steps)
  show "m_b2_double (MitchellFilter2_double 1 1 (6004799503160661 / 2 ^ 54) (6004799503160661 / 2 ^ 54)) =
       Some 2"
    by (simp only: MitchellFilter2_double_sel steps)
  show "m_b1_double (MitchellFilter2_double 1 1 (6004799503160661 / 2 ^ 54) (6004799503160661 / 2 ^ 54)) =
       Some (- (3752999689475413 / 2 ^ 50))"
    by (simp only: MitchellFilter2_double_sel steps)
  show "m_b0_double (MitchellFilter2_double 1 1 (6004799503160661 / 2 ^ 54) (6004799503160661 / 2 ^ 54)) =
       Some (2001599834386887 / 2 ^ 50)"
    by (simp only: MitchellFilter2_double_sel steps)
qed

section \<open>The claims\<close>

text \<open>
  C1. The specification says that \<^verbatim>\<open>LanczosFilter2\<close> precomputes the reciprocal of \<open>tau\<close>
  at construction and that the per-axis value at a normalized coordinate \<open>n \<noteq> 0\<close> is
  \<open>sinc(pi*n/tau) * sinc(pi*n)\<close>. The constructor initialises the field \<^verbatim>\<open>m_rcp_tau\<close>
  with \<open>tau\<close> itself, so \<^verbatim>\<open>lanczos\<close> computes \<open>sinc(pi*n*tau) * sinc(pi*n)\<close>. At
  \<open>xradius = yradius = 1\<close>, \<open>tau = 2\<close>, \<open>(x, y) = (1/2, 0)\<close> the stored field is \<open>2\<close>, not
  \<open>1/2\<close>; the code returns \<open>sinc(pi) * sinc(pi/2) * 1 = 0\<close>, and the value the
  specification describes is \<open>sinc(pi/4) * sinc(pi/2) * 1 = 4 * sqrt 2 / pi\<^sup>2\<close>, which is
  not \<open>0\<close>.
\<close>

theorem lanczos_tau_not_inverted:
  "m_rcp_tau (LanczosFilter2 1 1 2) = 2
   \<and> LanczosFilter2_evaluate (LanczosFilter2 1 1 2) (1 / 2) 0 = Some 0
   \<and> (do { lx \<leftarrow> lanczos_spec ((1 / 2) / 1) 2; ly \<leftarrow> lanczos_spec (0 / 1) 2; Some (lx * ly) })
       = Some (4 * sqrt 2 / pi\<^sup>2)
   \<and> 4 * sqrt 2 / pi\<^sup>2 \<noteq> 0"
  by (simp add: LanczosFilter2_evaluate_def lanczos_def lanczos_spec_def sinc_def Let_def sin_45 power2_eq_square)

text \<open>
  C2. \<^verbatim>\<open>BoxFilter2::evaluate\<close> returns \<open>1\<close> at every point of the support
  \<open>\<bar>x\<bar> \<le> xradius\<close>, \<open>\<bar>y\<bar> \<le> yradius\<close> (boundary and origin included), and for the box
  filter with \<open>xradius = yradius = 1\<close> \<^verbatim>\<open>compute_normalization_factor\<close> returns exactly
  \<open>4\<close> for every sample count \<open>\<ge> 1\<close>, whatever points the Hammersley sequence yields.
\<close>

theorem box_evaluate_and_normalization:
  assumes "\<bar>x\<bar> \<le> xr" "\<bar>y\<bar> \<le> yr" "1 \<le> sample_count"
  shows "BoxFilter2_evaluate (BoxFilter2 xr yr) x y = Some 1
       \<and> compute_normalization_factor BoxFilter2_evaluate (BoxFilter2 1 1) hs sample_count = Some 4"
proof -
  have loop: "normalization_loop BoxFilter2_evaluate (BoxFilter2 1 1) hs 1 1 sample_count 0 (Some 0)
                = Some (real sample_count)"
    using normalization_loop_const [of BoxFilter2_evaluate "BoxFilter2 1 1" 1 hs 1 1 sample_count 0 0]
    by (simp add: BoxFilter2_evaluate_def)
  have "compute_normalization_factor BoxFilter2_evaluate (BoxFilter2 1 1) hs sample_count = Some 4"
    using assms(3)
    by (simp add: compute_normalization_factor_pos get_xradius_def get_yradius_def
                  BoxFilter2_def loop [unfolded BoxFilter2_def])
  then show ?thesis by (simp add: BoxFilter2_evaluate_def)
qed

theorem box_evaluate_and_normalization_witness:
  "\<bar>0::real\<bar> \<le> 1 \<and> \<bar>1::real\<bar> \<le> 1 \<and> (1::nat) \<le> 16
   \<and> BoxFilter2_evaluate (BoxFilter2 1 1) 0 1 = Some 1
   \<and> compute_normalization_factor BoxFilter2_evaluate (BoxFilter2 1 1)
         (\<lambda>bases i n. (real i / real n, 0)) 16 = Some 4"
  using box_evaluate_and_normalization
          [where x = 0 and y = 1 and xr = 1 and yr = 1 and sample_count = 16
             and hs = "\<lambda>bases i n. (real i / real n, 0)"]
  by simp

text \<open>
  C3, as amended. In exact arithmetic the Mitchell-Netravali cubic is continuous at the
  breakpoint: with the coefficients the constructor computes from any \<open>b\<close> and \<open>c\<close> over
  the real numbers, the inner cubic \<open>a3*u^3 + a2*u^2 + a0\<close> and the outer cubic
  \<open>b3*u^3 + b2*u^2 + b1*u + b0\<close> agree at \<open>u = 1\<close> (written with \<open>x1 = 1\<close>,
  \<open>x2 = x1 * x1\<close>, \<open>x3 = x2 * x1\<close> as \<^verbatim>\<open>evaluate\<close> forms them), and both coefficient sums
  equal \<open>b / 6\<close>. Over doubles the equalities hold up to rounding only; see the
  counterexample below.
\<close>

theorem mitchell_continuous_at_breakpoint:
  "m_a3 (MitchellFilter2 xr yr b c) * (1 * 1 * 1) + m_a2 (MitchellFilter2 xr yr b c) * (1 * 1)
     + m_a0 (MitchellFilter2 xr yr b c)
   = m_b3 (MitchellFilter2 xr yr b c) * (1 * 1 * 1) + m_b2 (MitchellFilter2 xr yr b c) * (1 * 1)
     + m_b1 (MitchellFilter2 xr yr b c) * 1 + m_b0 (MitchellFilter2 xr yr b c)
  \<and> m_a3 (MitchellFilter2 xr yr b c) + m_a2 (MitchellFilter2 xr yr b c)
     + m_a0 (MitchellFilter2 xr yr b c) = b / 6
  \<and> m_b3 (MitchellFilter2 xr yr b c) + m_b2 (MitchellFilter2 xr yr b c)
     + m_b1 (MitchellFilter2 xr yr b c) + m_b0 (MitchellFilter2 xr yr b c) = b / 6"
  by (simp add: algebra_simps)

text \<open>
  The equality does not hold of the doubles the constructor stores. With \<open>b\<close> and \<open>c\<close>
  the double nearest to \<open>1/3\<close> (that is \<open>6004799503160661 / 2^54\<close>), summing as
  \<^verbatim>\<open>evaluate\<close> does at \<open>x1 = x2 = x3 = 1\<close>, the inner cubic gives
  \<open>31274997412295 / 2^49\<close> and the outer cubic gives \<open>125099989649181 / 2^51\<close>: they differ
  by \<open>2^-51\<close>, and neither is \<open>b / 6\<close>.
\<close>

theorem mitchell_breakpoint_double_counterexample:
  "dadd (dadd (dmul (m_a3_double (MitchellFilter2_double 1 1 (6004799503160661 / 2 ^ 54) (6004799503160661 / 2 ^ 54))) (Some 1)) (dmul (m_a2_double (MitchellFilter2_double 1 1 (6004799503160661 / 2 ^ 54) (6004799503160661 / 2 ^ 54))) (Some 1))) (m_a0_double (MitchellFilter2_double 1 1 (6004799503160661 / 2 ^ 54) (6004799503160661 / 2 ^ 54)))
     = Some (31274997412295 / 2 ^ 49)
   \<and> dadd (dadd (dadd (dmul (m_b3_double (MitchellFilter2_double 1 1 (6004799503160661 / 2 ^ 54) (6004799503160661 / 2 ^ 54))) (Some 1)) (dmul (m_b2_double (MitchellFilter2_double 1 1 (6004799503160661 / 2 ^ 54) (6004799503160661 / 2 ^ 54))) (Some 1)))
              (dmul (m_b1_double (MitchellFilter2_double 1 1 (6004799503160661 / 2 ^ 54) (6004799503160661 / 2 ^ 54))) (Some 1))) (m_b0_double (MitchellFilter2_double 1 1 (6004799503160661 / 2 ^ 54) (6004799503160661 / 2 ^ 54)))
     = Some (125099989649181 / 2 ^ 51)
   \<and> (31274997412295 / 2 ^ 49) \<noteq> ((125099989649181 / 2 ^ 51) :: real)
   \<and> (31274997412295 / 2 ^ 49) \<noteq> ((6004799503160661 / 2 ^ 54) / 6 :: real)
   \<and> (125099989649181 / 2 ^ 51) \<noteq> ((6004799503160661 / 2 ^ 54) / 6 :: real)"
proof -
  have t1: "dmul (Some (2627099782632789 / 2 ^ 51)) (Some 1) = Some (2627099782632789 / 2 ^ 51)"
    using fl_normal [of "0" "(2627099782632789 / 2 ^ 51) * 1"]
    by (simp add: dmul_def round_even_def Let_def powr_neg_numeral)
  have t2: "dmul (Some (- 2)) (Some 1) = Some (- 2)"
    using fl_normal [of "1" "(- 2) * 1"]
    by (simp add: dmul_def round_even_def Let_def powr_neg_numeral)
  have t3: "dadd (Some (2627099782632789 / 2 ^ 51)) (Some (- 2)) = Some (- (1876499844737707 / 2 ^ 51))"
    using fl_normal [of "(- 1)" "(2627099782632789 / 2 ^ 51) + (- 2)"]
    by (simp add: dadd_def round_even_def Let_def powr_neg_numeral)
  have t4: "dadd (Some (- (1876499844737707 / 2 ^ 51))) (Some (2001599834386887 / 2 ^ 51)) = Some (31274997412295 / 2 ^ 49)"
    using fl_normal [of "(- 5)" "(- (1876499844737707 / 2 ^ 51)) + (2001599834386887 / 2 ^ 51)"]
    by (simp add: dadd_def round_even_def Let_def powr_neg_numeral)
  have t5: "dmul (Some (- (7005599420354105 / 2 ^ 54))) (Some 1) = Some (- (7005599420354105 / 2 ^ 54))"
    using fl_normal [of "(- 2)" "(- (7005599420354105 / 2 ^ 54)) * 1"]
    by (simp add: dmul_def round_even_def Let_def powr_neg_numeral)
  have t6: "dmul (Some 2) (Some 1) = Some 2"
    using fl_normal [of "1" "2 * 1"]
    by (simp add: dmul_def round_even_def Let_def powr_neg_numeral)
  have t7: "dadd (Some (- (7005599420354105 / 2 ^ 54))) (Some 2) = Some (3627899699826233 / 2 ^ 51)"
    using fl_normal [of "0" "(- (7005599420354105 / 2 ^ 54)) + 2"]
    by (simp add: dadd_def round_even_def Let_def powr_neg_numeral)
  have t8: "dmul (Some (- (3752999689475413 / 2 ^ 50))) (Some 1) = Some (- (3752999689475413 / 2 ^ 50))"
    using fl_normal [of "1" "(- (3752999689475413 / 2 ^ 50)) * 1"]
    by (simp add: dmul_def round_even_def Let_def powr_neg_numeral)
  have t9: "dadd (Some (3627899699826233 / 2 ^ 51)) (Some (- (3752999689475413 / 2 ^ 50))) = Some (- (3878099679124593 / 2 ^ 51))"
    using fl_normal [of "0" "(3627899699826233 / 2 ^ 51) + (- (3752999689475413 / 2 ^ 50))"]
    by (simp add: dadd_def round_even_def Let_def powr_neg_numeral)
  have t10: "dadd (Some (- (3878099679124593 / 2 ^ 51))) (Some (2001599834386887 / 2 ^ 50)) = Some (125099989649181 / 2 ^ 51)"
    using fl_normal [of "(- 5)" "(- (3878099679124593 / 2 ^ 51)) + (2001599834386887 / 2 ^ 50)"]
    by (simp add: dadd_def round_even_def Let_def powr_neg_numeral)
  note steps = t1 t2 t3 t4 t5 t6 t7 t8 t9 t10
  have inner: "dadd (dadd (dmul (m_a3_double (MitchellFilter2_double 1 1 (6004799503160661 / 2 ^ 54) (6004799503160661 / 2 ^ 54))) (Some 1)) (dmul (m_a2_double (MitchellFilter2_double 1 1 (6004799503160661 / 2 ^ 54) (6004799503160661 / 2 ^ 54))) (Some 1))) (m_a0_double (MitchellFilter2_double 1 1 (6004799503160661 / 2 ^ 54) (6004799503160661 / 2 ^ 54)))
     = Some (31274997412295 / 2 ^ 49)"
    by (simp only: mitchell_double_third_coefficients steps)
  have outer: "dadd (dadd (dadd (dmul (m_b3_double (MitchellFilter2_double 1 1 (6004799503160661 / 2 ^ 54) (6004799503160661 / 2 ^ 54))) (Some 1)) (dmul (m_b2_double (MitchellFilter2_double 1 1 (6004799503160661 / 2 ^ 54) (6004799503160661 / 2 ^ 54))) (Some 1)))
              (dmul (m_b1_double (MitchellFilter2_double 1 1 (6004799503160661 / 2 ^ 54) (6004799503160661 / 2 ^ 54))) (Some 1))) (m_b0_double (MitchellFilter2_double 1 1 (6004799503160661 / 2 ^ 54) (6004799503160661 / 2 ^ 54)))
     = Some (125099989649181 / 2 ^ 51)"
    by (simp only: mitchell_double_third_coefficients steps)
  have ne: "(31274997412295 / 2 ^ 49) \<noteq> ((125099989649181 / 2 ^ 51) :: real)" "(31274997412295 / 2 ^ 49) \<noteq> ((6004799503160661 / 2 ^ 54) / 6 :: real)" "(125099989649181 / 2 ^ 51) \<noteq> ((6004799503160661 / 2 ^ 54) / 6 :: real)"
    by simp_all
  from inner outer ne show ?thesis by (intro conjI)
qed







text \<open>
  C6, as amended. In exact arithmetic the per-axis path of
  \<^verbatim>\<open>MitchellFilter2::evaluate\<close>, which uses the coefficients stored by the constructor,
  computes the same value as the static helper \<^verbatim>\<open>mitchell(x, b, c)\<close>: for every normalized
  coordinate \<open>n\<close> and every \<open>b\<close>, \<open>c\<close>, with \<open>x1 = \<bar>n + n\<bar>\<close>, the branch on \<open>x1 < 1\<close> over
  the stored coefficients equals \<open>mitchell n b c\<close>; hence \<^verbatim>\<open>evaluate(x, y)\<close> is the product
  of the helper's values at the two normalized coordinates (and has no value when a
  radius is zero). Over doubles the two paths round at different places and agree up to
  rounding only; see the counterexample below.
\<close>

theorem mitchell_evaluate_refines_helper:
  "(let x1 = \<bar>n + n\<bar>; x2 = x1 * x1; x3 = x2 * x1
    in if x1 < 1
       then m_a3 (MitchellFilter2 xr yr b c) * x3 + m_a2 (MitchellFilter2 xr yr b c) * x2
              + m_a0 (MitchellFilter2 xr yr b c)
       else m_b3 (MitchellFilter2 xr yr b c) * x3 + m_b2 (MitchellFilter2 xr yr b c) * x2
              + m_b1 (MitchellFilter2 xr yr b c) * x1 + m_b0 (MitchellFilter2 xr yr b c))
     = mitchell n b c
  \<and> MitchellFilter2_evaluate (MitchellFilter2 xr yr b c) x y =
     do {
       rcp_xradius \<leftarrow> T_div 1 xr;
       rcp_yradius \<leftarrow> T_div 1 yr;
       Some (mitchell (x * rcp_xradius) b c * mitchell (y * rcp_yradius) b c)
     }"
proof
  show "(let x1 = \<bar>n + n\<bar>; x2 = x1 * x1; x3 = x2 * x1
    in if x1 < 1
       then m_a3 (MitchellFilter2 xr yr b c) * x3 + m_a2 (MitchellFilter2 xr yr b c) * x2
              + m_a0 (MitchellFilter2 xr yr b c)
       else m_b3 (MitchellFilter2 xr yr b c) * x3 + m_b2 (MitchellFilter2 xr yr b c) * x2
              + m_b1 (MitchellFilter2 xr yr b c) * x1 + m_b0 (MitchellFilter2 xr yr b c))
     = mitchell n b c"
    by (rule mitchell_axis)
next
  have ax: "\<And>n. mitchell n b c = (let x1 = \<bar>n + n\<bar>; x2 = x1 * x1; x3 = x2 * x1
    in if x1 < 1
       then m_a3 (MitchellFilter2 xr yr b c) * x3 + m_a2 (MitchellFilter2 xr yr b c) * x2
              + m_a0 (MitchellFilter2 xr yr b c)
       else m_b3 (MitchellFilter2 xr yr b c) * x3 + m_b2 (MitchellFilter2 xr yr b c) * x2
              + m_b1 (MitchellFilter2 xr yr b c) * x1 + m_b0 (MitchellFilter2 xr yr b c))"
    by (rule mitchell_axis [symmetric])
  show "MitchellFilter2_evaluate (MitchellFilter2 xr yr b c) x y =
     do {
       rcp_xradius \<leftarrow> T_div 1 xr;
       rcp_yradius \<leftarrow> T_div 1 yr;
       Some (mitchell (x * rcp_xradius) b c * mitchell (y * rcp_yradius) b c)
     }"
    unfolding MitchellFilter2_evaluate_def ax Let_def MitchellFilter2_sel(3,4) ..
qed

text \<open>
  The two paths do not return the same double. With \<open>b\<close> and \<open>c\<close> the double nearest to
  \<open>1/3\<close> and the normalized coordinate \<open>n = 1/64\<close>, the path of \<^verbatim>\<open>evaluate\<close> over the stored
  coefficients gives \<open>7989127842394567 / 2^53\<close> and the helper \<^verbatim>\<open>mitchell\<close> gives
  \<open>7989127842394566 / 2^53\<close>: they differ in the last place.
\<close>

theorem mitchell_evaluate_helper_double_counterexample:
  "(let x1 = dabs (dadd (Some (1 / 2 ^ 6)) (Some (1 / 2 ^ 6)));
        x2 = dmul x1 x1;
        x3 = dmul x2 x1
    in if dless x1 (Some 1)
       then dadd (dadd (dmul (m_a3_double (MitchellFilter2_double 1 1 (6004799503160661 / 2 ^ 54) (6004799503160661 / 2 ^ 54))) x3) (dmul (m_a2_double (MitchellFilter2_double 1 1 (6004799503160661 / 2 ^ 54) (6004799503160661 / 2 ^ 54))) x2)) (m_a0_double (MitchellFilter2_double 1 1 (6004799503160661 / 2 ^ 54) (6004799503160661 / 2 ^ 54)))
       else dadd (dadd (dadd (dmul (m_b3_double (MitchellFilter2_double 1 1 (6004799503160661 / 2 ^ 54) (6004799503160661 / 2 ^ 54))) x3) (dmul (m_b2_double (MitchellFilter2_double 1 1 (6004799503160661 / 2 ^ 54) (6004799503160661 / 2 ^ 54))) x2))
                   (dmul (m_b1_double (MitchellFilter2_double 1 1 (6004799503160661 / 2 ^ 54) (6004799503160661 / 2 ^ 54))) x1)) (m_b0_double (MitchellFilter2_double 1 1 (6004799503160661 / 2 ^ 54) (6004799503160661 / 2 ^ 54))))
     = Some (7989127842394567 / 2 ^ 53)
   \<and> mitchell_double (1 / 2 ^ 6) (6004799503160661 / 2 ^ 54) (6004799503160661 / 2 ^ 54)
     = Some (3994563921197283 / 2 ^ 52)
   \<and> (7989127842394567 / 2 ^ 53) \<noteq> ((3994563921197283 / 2 ^ 52) :: real)"
proof -
  have u1: "dadd (Some (1 / 2 ^ 6)) (Some (1 / 2 ^ 6)) = Some (1 / 2 ^ 5)"
    using fl_normal [of "(- 5)" "(1 / 2 ^ 6) + (1 / 2 ^ 6)"]
    by (simp add: dadd_def round_even_def Let_def powr_neg_numeral)
  have u2: "dabs (Some (1 / 2 ^ 5)) = Some (1 / 2 ^ 5)"
    by (simp add: dabs_def)
  have u3: "dmul (Some (1 / 2 ^ 5)) (Some (1 / 2 ^ 5)) = Some (1 / 2 ^ 10)"
    using fl_normal [of "(- 10)" "(1 / 2 ^ 5) * (1 / 2 ^ 5)"]
    by (simp add: dmul_def round_even_def Let_def powr_neg_numeral)
  have u4: "dmul (Some (1 / 2 ^ 10)) (Some (1 / 2 ^ 5)) = Some (1 / 2 ^ 15)"
    using fl_normal [of "(- 15)" "(1 / 2 ^ 10) * (1 / 2 ^ 5)"]
    by (simp add: dmul_def round_even_def Let_def powr_neg_numeral)
  have u5: "dless (Some (1 / 2 ^ 5)) (Some 1)"
    by (simp add: dless_def)
  have u6: "dmul (Some (2627099782632789 / 2 ^ 51)) (Some (1 / 2 ^ 15)) = Some (2627099782632789 / 2 ^ 66)"
    using fl_normal [of "(- 15)" "(2627099782632789 / 2 ^ 51) * (1 / 2 ^ 15)"]
    by (simp add: dmul_def round_even_def Let_def powr_neg_numeral)
  have u7: "dmul (Some (- 2)) (Some (1 / 2 ^ 10)) = Some (- (1 / 2 ^ 9))"
    using fl_normal [of "(- 9)" "(- 2) * (1 / 2 ^ 10)"]
    by (simp add: dmul_def round_even_def Let_def powr_neg_numeral)
  have u8: "dadd (Some (2627099782632789 / 2 ^ 66)) (Some (- (1 / 2 ^ 9))) = Some (- (8843005518326443 / 2 ^ 62))"
    using fl_normal [of "(- 10)" "(2627099782632789 / 2 ^ 66) + (- (1 / 2 ^ 9))"]
    by (simp add: dadd_def round_even_def Let_def powr_neg_numeral)
  have u9: "dadd (Some (- (8843005518326443 / 2 ^ 62))) (Some (2001599834386887 / 2 ^ 51)) = Some (7989127842394567 / 2 ^ 53)"
    using fl_normal [of "(- 1)" "(- (8843005518326443 / 2 ^ 62)) + (2001599834386887 / 2 ^ 51)"]
    by (simp add: dadd_def round_even_def Let_def powr_neg_numeral)
  have v1: "ddiv (Some 1) (Some 6) = Some (6004799503160661 / 2 ^ 55)"
    using fl_normal [of "(- 3)" "1 / 6"]
    by (simp add: ddiv_def round_even_def Let_def powr_neg_numeral)
  have v2: "dmul (Some 9) (Some (6004799503160661 / 2 ^ 54)) = Some 3"
    using fl_normal [of "1" "9 * (6004799503160661 / 2 ^ 54)"]
    by (simp add: dmul_def round_even_def Let_def powr_neg_numeral)
  have v3: "dsub (Some 12) (Some 3) = Some 9"
    using fl_normal [of "3" "12 - 3"]
    by (simp add: dsub_def round_even_def Let_def powr_neg_numeral)
  have v4: "dmul (Some 6) (Some (6004799503160661 / 2 ^ 54)) = Some 2"
    using fl_normal [of "0" "6 * (6004799503160661 / 2 ^ 54)"]
    by (simp add: dmul_def round_even_def Let_def powr_neg_numeral)
  have v5: "dsub (Some 9) (Some 2) = Some 7"
    using fl_normal [of "2" "9 - 2"]
    by (simp add: dsub_def round_even_def Let_def powr_neg_numeral)
  have v6: "dmul (Some 12) (Some (6004799503160661 / 2 ^ 54)) = Some 4"
    using fl_normal [of "1" "12 * (6004799503160661 / 2 ^ 54)"]
    by (simp add: dmul_def round_even_def Let_def powr_neg_numeral)
  have v7: "dadd (Some (- 18)) (Some 4) = Some (- 14)"
    using fl_normal [of "3" "(- 18) + 4"]
    by (simp add: dadd_def round_even_def Let_def powr_neg_numeral)
  have v8: "dadd (Some (- 14)) (Some 2) = Some (- 12)"
    using fl_normal [of "3" "(- 14) + 2"]
    by (simp add: dadd_def round_even_def Let_def powr_neg_numeral)
  have v9: "dmul (Some 2) (Some (6004799503160661 / 2 ^ 54)) = Some (6004799503160661 / 2 ^ 53)"
    using fl_normal [of "(- 1)" "2 * (6004799503160661 / 2 ^ 54)"]
    by (simp add: dmul_def round_even_def Let_def powr_neg_numeral)
  have v10: "dsub (Some 6) (Some (6004799503160661 / 2 ^ 53)) = Some (6004799503160661 / 2 ^ 50)"
    using fl_normal [of "2" "6 - (6004799503160661 / 2 ^ 53)"]
    by (simp add: dsub_def round_even_def Let_def powr_neg_numeral)
  have v11: "dmul (Some 7) (Some (1 / 2 ^ 15)) = Some (7 / 2 ^ 15)"
    using fl_normal [of "(- 13)" "7 * (1 / 2 ^ 15)"]
    by (simp add: dmul_def round_even_def Let_def powr_neg_numeral)
  have v12: "dmul (Some (- 12)) (Some (1 / 2 ^ 10)) = Some (- (3 / 2 ^ 8))"
    using fl_normal [of "(- 7)" "(- 12) * (1 / 2 ^ 10)"]
    by (simp add: dmul_def round_even_def Let_def powr_neg_numeral)
  have v13: "dadd (Some (7 / 2 ^ 15)) (Some (- (3 / 2 ^ 8))) = Some (- (377 / 2 ^ 15))"
    using fl_normal [of "(- 7)" "(7 / 2 ^ 15) + (- (3 / 2 ^ 8))"]
    by (simp add: dadd_def round_even_def Let_def powr_neg_numeral)
  have v14: "dadd (Some (- (377 / 2 ^ 15))) (Some (6004799503160661 / 2 ^ 50)) = Some (5991845881795925 / 2 ^ 50)"
    using fl_normal [of "2" "(- (377 / 2 ^ 15)) + (6004799503160661 / 2 ^ 50)"]
    by (simp add: dadd_def round_even_def Let_def powr_neg_numeral)
  have v15: "dmul (Some (6004799503160661 / 2 ^ 55)) (Some (5991845881795925 / 2 ^ 50)) = Some (3994563921197283 / 2 ^ 52)"
    using fl_normal [of "(- 1)" "(6004799503160661 / 2 ^ 55) * (5991845881795925 / 2 ^ 50)"]
    by (simp add: dmul_def round_even_def Let_def powr_neg_numeral)
  note steps = u1 u2 u3 u4 u5 u6 u7 u8 u9 v1 v2 v3 v4 v5 v6 v7 v8 v9 v10 v11 v12 v13 v14 v15
  have path: "(let x1 = dabs (dadd (Some (1 / 2 ^ 6)) (Some (1 / 2 ^ 6)));
        x2 = dmul x1 x1;
        x3 = dmul x2 x1
    in if dless x1 (Some 1)
       then dadd (dadd (dmul (m_a3_double (MitchellFilter2_double 1 1 (6004799503160661 / 2 ^ 54) (6004799503160661 / 2 ^ 54))) x3) (dmul (m_a2_double (MitchellFilter2_double 1 1 (6004799503160661 / 2 ^ 54) (6004799503160661 / 2 ^ 54))) x2)) (m_a0_double (MitchellFilter2_double 1 1 (6004799503160661 / 2 ^ 54) (6004799503160661 / 2 ^ 54)))
       else dadd (dadd (dadd (dmul (m_b3_double (MitchellFilter2_double 1 1 (6004799503160661 / 2 ^ 54) (6004799503160661 / 2 ^ 54))) x3) (dmul (m_b2_double (MitchellFilter2_double 1 1 (6004799503160661 / 2 ^ 54) (6004799503160661 / 2 ^ 54))) x2))
                   (dmul (m_b1_double (MitchellFilter2_double 1 1 (6004799503160661 / 2 ^ 54) (6004799503160661 / 2 ^ 54))) x1)) (m_b0_double (MitchellFilter2_double 1 1 (6004799503160661 / 2 ^ 54) (6004799503160661 / 2 ^ 54))))
     = Some (7989127842394567 / 2 ^ 53)"
    by (simp only: Let_def mitchell_double_third_coefficients steps if_True)
  have helper: "mitchell_double (1 / 2 ^ 6) (6004799503160661 / 2 ^ 54) (6004799503160661 / 2 ^ 54)
     = Some (3994563921197283 / 2 ^ 52)"
    by (simp only: mitchell_double_def Let_def steps if_True)
  have ne: "(7989127842394567 / 2 ^ 53) \<noteq> ((3994563921197283 / 2 ^ 52) :: real)"
    by simp
  from path helper ne show ?thesis by (intro conjI)
qed

text \<open>
  C7. For a \<^verbatim>\<open>LanczosFilter2\<close> with positive radii and \<open>tau > 0\<close>, \<open>evaluate(0, 0)\<close> is
  exactly \<open>1\<close>: the result is a value, so no division by zero was met on the way.
\<close>

theorem lanczos_origin:
  assumes "0 < xr" "0 < yr" "0 < tau"
  shows "LanczosFilter2_evaluate (LanczosFilter2 xr yr tau) 0 0 = Some 1"
  using assms by (simp add: LanczosFilter2_evaluate_def lanczos_def)

theorem lanczos_origin_witness:
  "(0::real) < 2 \<and> (0::real) < 3 \<and> (0::real) < 4
   \<and> LanczosFilter2_evaluate (LanczosFilter2 2 3 4) 0 0 = Some 1"
  using lanczos_origin [where xr = 2 and yr = 3 and tau = 4]
  by simp

text \<open>
  C8. \<^verbatim>\<open>TriangleFilter2::evaluate\<close> and \<^verbatim>\<open>LanczosFilter2::evaluate\<close> are symmetric
  about each axis: for positive radii (and \<open>tau > 0\<close> for Lanczos) and every \<open>x\<close>, \<open>y\<close>,
  \<open>evaluate(x, y) = evaluate(-x, y) = evaluate(x, -y)\<close>, and that common result is a
  value.
\<close>

theorem triangle_lanczos_symmetric:
  assumes "0 < xr" "0 < yr" "0 < tau"
  shows "TriangleFilter2_evaluate (TriangleFilter2 xr yr) x y
           = TriangleFilter2_evaluate (TriangleFilter2 xr yr) (- x) y
       \<and> TriangleFilter2_evaluate (TriangleFilter2 xr yr) x y
           = TriangleFilter2_evaluate (TriangleFilter2 xr yr) x (- y)
       \<and> TriangleFilter2_evaluate (TriangleFilter2 xr yr) x y \<noteq> None
       \<and> LanczosFilter2_evaluate (LanczosFilter2 xr yr tau) x y
           = LanczosFilter2_evaluate (LanczosFilter2 xr yr tau) (- x) y
       \<and> LanczosFilter2_evaluate (LanczosFilter2 xr yr tau) x y
           = LanczosFilter2_evaluate (LanczosFilter2 xr yr tau) x (- y)
       \<and> LanczosFilter2_evaluate (LanczosFilter2 xr yr tau) x y \<noteq> None"
proof -
  from assms have nz: "xr \<noteq> 0" "yr \<noteq> 0" "tau \<noteq> 0" by simp_all
  have tri: "TriangleFilter2_evaluate (TriangleFilter2 xr yr) x y
           = TriangleFilter2_evaluate (TriangleFilter2 xr yr) (- x) y
       \<and> TriangleFilter2_evaluate (TriangleFilter2 xr yr) x y
           = TriangleFilter2_evaluate (TriangleFilter2 xr yr) x (- y)
       \<and> TriangleFilter2_evaluate (TriangleFilter2 xr yr) x y \<noteq> None"
    using nz by (simp add: TriangleFilter2_evaluate_def TriangleFilter2_def)
  obtain lx where lx: "lanczos (x / xr) tau = Some lx"
    using lanczos_defined [OF nz(3), of "x / xr"] by blast
  obtain ly where ly: "lanczos (y / yr) tau = Some ly"
    using lanczos_defined [OF nz(3), of "y / yr"] by blast
  have mx: "lanczos (- (x / xr)) tau = Some lx"
    using lx by (simp only: lanczos_minus)
  have my: "lanczos (- (y / yr)) tau = Some ly"
    using ly by (simp only: lanczos_minus)
  have lan: "LanczosFilter2_evaluate (LanczosFilter2 xr yr tau) x y
           = LanczosFilter2_evaluate (LanczosFilter2 xr yr tau) (- x) y
       \<and> LanczosFilter2_evaluate (LanczosFilter2 xr yr tau) x y
           = LanczosFilter2_evaluate (LanczosFilter2 xr yr tau) x (- y)
       \<and> LanczosFilter2_evaluate (LanczosFilter2 xr yr tau) x y \<noteq> None"
    using nz lx ly mx my by (simp add: LanczosFilter2_evaluate_def)
  from tri lan show ?thesis by blast
qed

theorem triangle_lanczos_symmetric_witness:
  "(0::real) < 2 \<and> (0::real) < 3 \<and> (0::real) < 4
   \<and> TriangleFilter2_evaluate (TriangleFilter2 2 3) 1 (1 / 2)
        = TriangleFilter2_evaluate (TriangleFilter2 2 3) (- 1) (1 / 2)
   \<and> TriangleFilter2_evaluate (TriangleFilter2 2 3) 1 (1 / 2)
        = TriangleFilter2_evaluate (TriangleFilter2 2 3) 1 (- (1 / 2))
   \<and> TriangleFilter2_evaluate (TriangleFilter2 2 3) 1 (1 / 2) \<noteq> None
   \<and> LanczosFilter2_evaluate (LanczosFilter2 2 3 4) 1 (1 / 2)
        = LanczosFilter2_evaluate (LanczosFilter2 2 3 4) (- 1) (1 / 2)
   \<and> LanczosFilter2_evaluate (LanczosFilter2 2 3 4) 1 (1 / 2)
        = LanczosFilter2_evaluate (LanczosFilter2 2 3 4) 1 (- (1 / 2))
   \<and> LanczosFilter2_evaluate (LanczosFilter2 2 3 4) 1 (1 / 2) \<noteq> None"
proof -
  have h: "(0::real) < 2" "(0::real) < 3" "(0::real) < 4" by simp_all
  from h triangle_lanczos_symmetric
          [where xr = 2 and yr = 3 and tau = 4 and x = 1 and y = "1 / 2", OF h]
  show ?thesis by blast
qed

text \<open>
  C9. For each of the five kernels and all positive radii, \<^verbatim>\<open>get_xradius\<close> and
  \<^verbatim>\<open>get_yradius\<close> return the \<open>xradius\<close> and \<open>yradius\<close> passed to the constructor,
  unchanged.
\<close>

theorem radii_accessors:
  assumes "0 < xr" "0 < yr"
  shows "get_xradius (BoxFilter2 xr yr) = xr \<and> get_yradius (BoxFilter2 xr yr) = yr
       \<and> get_xradius (TriangleFilter2 xr yr) = xr \<and> get_yradius (TriangleFilter2 xr yr) = yr
       \<and> get_xradius (GaussianFilter2 xr yr alpha) = xr \<and> get_yradius (GaussianFilter2 xr yr alpha) = yr
       \<and> get_xradius (MitchellFilter2 xr yr b c) = xr \<and> get_yradius (MitchellFilter2 xr yr b c) = yr
       \<and> get_xradius (LanczosFilter2 xr yr tau) = xr \<and> get_yradius (LanczosFilter2 xr yr tau) = yr"
  by (simp add: get_xradius_def get_yradius_def BoxFilter2_def TriangleFilter2_def)

theorem radii_accessors_witness:
  "(0::real) < 2 \<and> (0::real) < 3
   \<and> get_xradius (BoxFilter2 2 3) = 2 \<and> get_yradius (BoxFilter2 2 3) = 3
   \<and> get_xradius (TriangleFilter2 2 3) = 2 \<and> get_yradius (TriangleFilter2 2 3) = 3
   \<and> get_xradius (GaussianFilter2 2 3 4) = 2 \<and> get_yradius (GaussianFilter2 2 3 4) = 3
   \<and> get_xradius (MitchellFilter2 2 3 (1 / 3) (1 / 3)) = 2
   \<and> get_yradius (MitchellFilter2 2 3 (1 / 3) (1 / 3)) = 3
   \<and> get_xradius (LanczosFilter2 2 3 4) = 2 \<and> get_yradius (LanczosFilter2 2 3 4) = 3"
  using radii_accessors
          [where xr = 2 and yr = 3 and alpha = 4 and b = "1 / 3" and c = "1 / 3" and tau = 4]
  by simp

text \<open>
  C10. The final division of \<^verbatim>\<open>compute_normalization_factor\<close> is not guarded. With
  \<open>sample_count = 0\<close> the loop body never runs and the function divides \<open>0\<close> by \<open>0\<close>:
  there is no result, for every kernel and every filter object. With
  \<open>sample_count \<ge> 1\<close> the division has a value: the result is the accumulated sum times
  \<open>4 * xradius * yradius\<close> over the sample count, undefined only if the sum is; and for
  each of the five kernels with positive radii (and \<open>tau > 0\<close>) the whole result is
  defined.
\<close>

theorem normalization_division_by_sample_count:
  assumes "1 \<le> n" "0 < xr" "0 < yr" "0 < tau"
  shows "compute_normalization_factor ev flt hs 0 = None
       \<and> compute_normalization_factor ev flt hs n =
           map_option (\<lambda>result. result * (4 * get_xradius flt * get_yradius flt) / real n)
             (normalization_loop ev flt hs (get_xradius flt) (get_yradius flt) n 0 (Some 0))
       \<and> compute_normalization_factor BoxFilter2_evaluate (BoxFilter2 xr yr) hs n \<noteq> None
       \<and> compute_normalization_factor TriangleFilter2_evaluate (TriangleFilter2 xr yr) hs n \<noteq> None
       \<and> compute_normalization_factor GaussianFilter2_evaluate (GaussianFilter2 xr yr alpha) hs n
           \<noteq> None
       \<and> compute_normalization_factor MitchellFilter2_evaluate (MitchellFilter2 xr yr b c) hs n
           \<noteq> None
       \<and> compute_normalization_factor LanczosFilter2_evaluate (LanczosFilter2 xr yr tau) hs n
           \<noteq> None"
proof -
  from assms have nz: "xr \<noteq> 0" "yr \<noteq> 0" "tau \<noteq> 0" by simp_all
  have box: "compute_normalization_factor BoxFilter2_evaluate (BoxFilter2 xr yr) hs n \<noteq> None"
    using compute_normalization_factor_defined [OF assms(1), of BoxFilter2_evaluate
            "BoxFilter2 xr yr" hs] BoxFilter2_defined by auto
  have tri: "compute_normalization_factor TriangleFilter2_evaluate (TriangleFilter2 xr yr) hs n
               \<noteq> None"
    using compute_normalization_factor_defined [OF assms(1), of TriangleFilter2_evaluate
            "TriangleFilter2 xr yr" hs] TriangleFilter2_defined [OF nz(1,2)] by auto
  have gau: "compute_normalization_factor GaussianFilter2_evaluate (GaussianFilter2 xr yr alpha)
               hs n \<noteq> None"
    using compute_normalization_factor_defined [OF assms(1), of GaussianFilter2_evaluate
            "GaussianFilter2 xr yr alpha" hs] GaussianFilter2_defined [OF nz(1,2)] by auto
  have mit: "compute_normalization_factor MitchellFilter2_evaluate (MitchellFilter2 xr yr b c)
               hs n \<noteq> None"
    using compute_normalization_factor_defined [OF assms(1), of MitchellFilter2_evaluate
            "MitchellFilter2 xr yr b c" hs] MitchellFilter2_defined [OF nz(1,2)] by auto
  have lan: "compute_normalization_factor LanczosFilter2_evaluate (LanczosFilter2 xr yr tau)
               hs n \<noteq> None"
    using compute_normalization_factor_defined [OF assms(1), of LanczosFilter2_evaluate
            "LanczosFilter2 xr yr tau" hs] LanczosFilter2_defined [OF nz] by auto
  show ?thesis
    using box tri gau mit lan compute_normalization_factor_zero [of ev flt hs]
      compute_normalization_factor_pos [OF assms(1), of ev flt hs]
    by blast
qed

theorem normalization_division_by_sample_count_witness:
  "(1::nat) \<le> 1024 \<and> (0::real) < 2 \<and> (0::real) < 3 \<and> (0::real) < 4
   \<and> compute_normalization_factor TriangleFilter2_evaluate (TriangleFilter2 2 3)
         (\<lambda>bases i n. (real i / real n, 0)) 0 = None
   \<and> compute_normalization_factor BoxFilter2_evaluate (BoxFilter2 2 3)
         (\<lambda>bases i n. (real i / real n, 0)) 1024 \<noteq> None
   \<and> compute_normalization_factor TriangleFilter2_evaluate (TriangleFilter2 2 3)
         (\<lambda>bases i n. (real i / real n, 0)) 1024 \<noteq> None
   \<and> compute_normalization_factor GaussianFilter2_evaluate (GaussianFilter2 2 3 1)
         (\<lambda>bases i n. (real i / real n, 0)) 1024 \<noteq> None
   \<and> compute_normalization_factor MitchellFilter2_evaluate (MitchellFilter2 2 3 (1 / 3) (1 / 3))
         (\<lambda>bases i n. (real i / real n, 0)) 1024 \<noteq> None
   \<and> compute_normalization_factor LanczosFilter2_evaluate (LanczosFilter2 2 3 4)
         (\<lambda>bases i n. (real i / real n, 0)) 1024 \<noteq> None"
proof -
  have h: "(1::nat) \<le> 1024" "(0::real) < 2" "(0::real) < 3" "(0::real) < 4" by simp_all
  from h normalization_division_by_sample_count
          [where n = 1024 and xr = 2 and yr = 3 and tau = 4 and alpha = 1
             and b = "1 / 3" and c = "1 / 3"
             and ev = TriangleFilter2_evaluate and flt = "TriangleFilter2 2 3"
             and hs = "\<lambda>bases i n. (real i / real n, 0)", OF h]
  show ?thesis by blast
qed

end
